theory Spec2Isabelle
  imports Main "HOL-Library.Char_ord" "HOL-Library.List_Lexorder" "HOL-Library.Sublist"
    "HOL-Library.Multiset"
begin

section \<open>Python values and the built-in operations the tracker uses\<close>

text \<open>
  The tracker is written in Python, so the fields of a task hold whatever \<open>json.load\<close>
  delivered or a caller passed in. The values covered here are \<open>None\<close>, booleans,
  unbounded integers, strings, lists and dictionaries with string keys (kept in insertion
  order, as Python keeps them). JSON numbers with a fraction or an exponent (Python floats)
  are outside this development.
\<close>

datatype pyval =
    PNone
  | PBool bool
  | PInt int
  | PStr string
  | PList "pyval list"
  | PDict "(string \<times> pyval) list"

datatype error = TypeError | AttributeError | UnicodeDecodeError

text \<open>The number a value stands for in arithmetic and comparison: \<open>bool\<close> is a subclass
  of \<open>int\<close>, so \<open>True\<close> counts as 1 and \<open>False\<close> as 0.\<close>

fun py_num :: "pyval \<Rightarrow> int option" where
  "py_num (PInt n) = Some n"
| "py_num (PBool b) = Some (if b then 1 else 0)"
| "py_num v = None"

text \<open>Python's \<open>==\<close>. It never raises on these values; values of unrelated types are unequal.
  Two dictionaries are equal when they have the same number of keys and every key of the
  first is in the second with an equal value.\<close>

function py_eq :: "pyval \<Rightarrow> pyval \<Rightarrow> bool"
  and py_eq_list :: "pyval list \<Rightarrow> pyval list \<Rightarrow> bool"
  and py_eq_items :: "(string \<times> pyval) list \<Rightarrow> (string \<times> pyval) list \<Rightarrow> bool" where
  "py_eq PNone w = (w = PNone)"
| "py_eq (PBool b) w = (py_num w = Some (if b then 1 else 0))"
| "py_eq (PInt n) w = (py_num w = Some n)"
| "py_eq (PStr s) w = (w = PStr s)"
| "py_eq (PList xs) w = (case w of PList ys \<Rightarrow> py_eq_list xs ys | _ \<Rightarrow> False)"
| "py_eq (PDict xs) w =
     (case w of PDict ys \<Rightarrow> length xs = length ys \<and> py_eq_items xs ys | _ \<Rightarrow> False)"
| "py_eq_list [] ys = (ys = [])"
| "py_eq_list (x # xs) ys =
     (case ys of [] \<Rightarrow> False | y # ys' \<Rightarrow> py_eq x y \<and> py_eq_list xs ys')"
| "py_eq_items [] ys = True"
| "py_eq_items (kv # xs) ys =
     ((case map_of ys (fst kv) of None \<Rightarrow> False | Some w \<Rightarrow> py_eq (snd kv) w)
      \<and> py_eq_items xs ys)"
  by pat_completeness auto
termination
  by (relation "measure (\<lambda>a. case a of
        Inl (v, w) \<Rightarrow> 2 * size v
      | Inr (Inl (xs, ys)) \<Rightarrow> 2 * size_list size xs + 1
      | Inr (Inr (xs, ys)) \<Rightarrow> 2 * size_list (size_prod (\<lambda>k. 0) size) xs + 1)")
     (auto simp: less_Suc_eq_le)

text \<open>Python's \<open>>\<close>, which \<open>max\<close> uses. Numbers compare by value, strings and lists
  lexicographically (a list by its first unequal pair of elements, else by length);
  every other pairing raises \<open>TypeError\<close>.\<close>

function (sequential) py_gt :: "pyval \<Rightarrow> pyval \<Rightarrow> error + bool"
  and py_gt_list :: "pyval list \<Rightarrow> pyval list \<Rightarrow> error + bool" where
  "py_gt (PStr s) (PStr t) = Inr (t < s)"
| "py_gt (PList xs) (PList ys) = py_gt_list xs ys"
| "py_gt v w =
     (case (py_num v, py_num w) of
        (Some a, Some b) \<Rightarrow> Inr (b < a)
      | _ \<Rightarrow> Inl TypeError)"
| "py_gt_list [] ys = Inr False"
| "py_gt_list (x # xs) [] = Inr True"
| "py_gt_list (x # xs) (y # ys) = (if py_eq x y then py_gt_list xs ys else py_gt x y)"
  by pat_completeness auto
termination
  by (relation "measure (\<lambda>a. case a of
        Inl (v, w) \<Rightarrow> 2 * size v
      | Inr (xs, ys) \<Rightarrow> 2 * size_list size xs + 1)")
     (auto simp: less_Suc_eq_le)

text \<open>Python's \<open>+\<close>: addition of numbers, concatenation of two strings or of two lists,
  \<open>TypeError\<close> otherwise.\<close>

fun py_add :: "pyval \<Rightarrow> pyval \<Rightarrow> error + pyval" where
  "py_add (PStr s) (PStr t) = Inr (PStr (s @ t))"
| "py_add (PList xs) (PList ys) = Inr (PList (xs @ ys))"
| "py_add v w =
     (case (py_num v, py_num w) of
        (Some a, Some b) \<Rightarrow> Inr (PInt (a + b))
      | _ \<Rightarrow> Inl TypeError)"

text \<open>\<open>max\<close> over a non-empty iterable: the first item is the running maximum, and a later
  item replaces it when it is greater. \<open>py_max m xs\<close> continues with running maximum \<open>m\<close>.\<close>

fun py_max :: "pyval \<Rightarrow> pyval list \<Rightarrow> error + pyval" where
  "py_max m [] = Inr m"
| "py_max m (x # xs) =
     (case py_gt x m of
        Inl e \<Rightarrow> Inl e
      | Inr b \<Rightarrow> py_max (if b then x else m) xs)"

text \<open>\<open>obj.get(key, default)\<close>: only a dictionary has the method.\<close>

fun py_get :: "pyval \<Rightarrow> string \<Rightarrow> pyval \<Rightarrow> error + pyval" where
  "py_get (PDict kvs) k d = Inr (case map_of kvs k of None \<Rightarrow> d | Some v \<Rightarrow> v)"
| "py_get v k d = Inl AttributeError"

text \<open>What a \<open>for\<close> over a value visits: the elements of a list, the keys of a dictionary,
  the one-character strings of a string; the other values are not iterable.\<close>

fun py_iter :: "pyval \<Rightarrow> error + pyval list" where
  "py_iter (PList xs) = Inr xs"
| "py_iter (PDict kvs) = Inr (map (\<lambda>kv. PStr (fst kv)) kvs)"
| "py_iter (PStr s) = Inr (map (\<lambda>c. PStr [c]) s)"
| "py_iter v = Inl TypeError"

section \<open>models.py: the task entity\<close>

text \<open>The constructor stores its four arguments unchecked. The field \<open>id\<close> of the class is
  \<open>id'\<close> here, and the parameters \<open>title\<close> and \<open>description\<close> of the operations
  are \<open>ttl\<close> and \<open>descr\<close>, the plain names being the fields of the record.\<close>

record Task =
  id' :: pyval
  title :: pyval
  description :: pyval
  status :: pyval

definition to_dict :: "Task \<Rightarrow> pyval" where
  "to_dict self =
     PDict [(''id'', id' self), (''title'', title self),
            (''description'', description self), (''status'', status self)]"

definition from_dict :: "pyval \<Rightarrow> error + Task" where
  "from_dict task_dict =
     (case py_get task_dict ''id'' PNone of Inl e \<Rightarrow> Inl e | Inr i \<Rightarrow>
     (case py_get task_dict ''title'' PNone of Inl e \<Rightarrow> Inl e | Inr t \<Rightarrow>
     (case py_get task_dict ''description'' PNone of Inl e \<Rightarrow> Inl e | Inr d \<Rightarrow>
     (case py_get task_dict ''status'' (PStr ''todo'') of Inl e \<Rightarrow> Inl e | Inr s \<Rightarrow>
        Inr \<lparr>id' = i, title = t, description = d, status = s\<rparr>))))"

section \<open>operations.py: the task store\<close>

text \<open>
  The file \<open>tasks.json\<close> as \<open>load_tasks\<close> meets it: it is not there; or its bytes are not
  UTF-8, so that reading the text raises \<open>UnicodeDecodeError\<close>; or the text is not JSON, so
  that \<open>json.load\<close> raises \<open>JSONDecodeError\<close>; or \<open>json.load\<close> returns a value.
  \<open>json.dump\<close> followed by \<open>json.load\<close> gives the dumped value back. Failures of the
  file system while writing are not part of the development.
\<close>

datatype resource = Missing | NotUtf8 | NotJson | Json pyval

text \<open>The list comprehension \<open>[Task.from_dict(td) for td in tasks_data]\<close>, element by
  element; the first failing record raises.\<close>

fun from_dicts :: "pyval list \<Rightarrow> error + Task list" where
  "from_dicts [] = Inr []"
| "from_dicts (td # tds) =
     (case from_dict td of Inl e \<Rightarrow> Inl e | Inr t \<Rightarrow>
     (case from_dicts tds of Inl e \<Rightarrow> Inl e | Inr ts \<Rightarrow> Inr (t # ts)))"

text \<open>Only \<open>JSONDecodeError\<close> is caught.\<close>

fun load_tasks :: "resource \<Rightarrow> error + Task list" where
  "load_tasks Missing = Inr []"
| "load_tasks NotUtf8 = Inl UnicodeDecodeError"
| "load_tasks NotJson = Inr []"
| "load_tasks (Json tasks_data) =
     (case py_iter tasks_data of Inl e \<Rightarrow> Inl e | Inr tds \<Rightarrow> from_dicts tds)"

definition save_tasks :: "Task list \<Rightarrow> resource" where
  "save_tasks tasks = Json (PList (map to_dict tasks))"

definition get_new_task_id :: "Task list \<Rightarrow> error + pyval" where
  "get_new_task_id tasks =
     (case tasks of
        [] \<Rightarrow> Inr (PInt 1)
      | task # rest \<Rightarrow>
          (case py_max (id' task) (map id' rest) of
             Inl e \<Rightarrow> Inl e
           | Inr max_id \<Rightarrow> py_add max_id (PInt 1)))"







definition list_tasks :: "string \<Rightarrow> resource \<Rightarrow> error + Task list" where
  "list_tasks filter_by file =
     (case load_tasks file of Inl e \<Rightarrow> Inl e | Inr tasks \<Rightarrow>
        if filter_by = ''all'' then Inr tasks
        else if filter_by = ''done''
          then Inr (filter (\<lambda>task. py_eq (status task) (PStr ''done'')) tasks)
        else if filter_by = ''not_done''
          then Inr (filter (\<lambda>task. \<not> py_eq (status task) (PStr ''done'')) tasks)
        else if filter_by = ''in_progress''
          then Inr (filter (\<lambda>task. py_eq (status task) (PStr ''in_progress'')) tasks)
        else Inr tasks)"

section \<open>main.py: the status values the two front ends pass on\<close>




section \<open>Sequences of operations\<close>







section \<open>Serialization\<close>

lemma from_dict_to_dict: "from_dict (to_dict task) = Inr task"
  by (simp add: from_dict_def to_dict_def)

lemma from_dicts_to_dict: "from_dicts (map to_dict tasks) = Inr tasks"
  by (induction tasks) (simp_all add: from_dict_to_dict)

lemma load_save: "load_tasks (save_tasks tasks) = Inr tasks"
  by (simp add: save_tasks_def from_dicts_to_dict)

lemma from_dict_PDict:
  "from_dict (PDict kvs) =
     Inr \<lparr>id' = (case map_of kvs ''id'' of None \<Rightarrow> PNone | Some v \<Rightarrow> v),
          title = (case map_of kvs ''title'' of None \<Rightarrow> PNone | Some v \<Rightarrow> v),
          description = (case map_of kvs ''description'' of None \<Rightarrow> PNone | Some v \<Rightarrow> v),
          status = (case map_of kvs ''status'' of None \<Rightarrow> PStr ''todo'' | Some v \<Rightarrow> v)\<rparr>"
  by (simp add: from_dict_def)

text \<open>
  C9. A task survives \<open>to_dict\<close> followed by \<open>from_dict\<close> with all four fields as they
  were; \<open>to_dict\<close> gives a dictionary with exactly the keys \<open>id\<close>, \<open>title\<close>,
  \<open>description\<close>, \<open>status\<close>; \<open>from_dict\<close> of a dictionary accepts it whatever keys are
  missing, puts \<open>"todo"\<close> for a missing \<open>status\<close> and \<open>None\<close> for a missing \<open>id\<close>,
  \<open>title\<close> or \<open>description\<close>.
\<close>

theorem task_dict_roundtrip:
  "from_dict (to_dict task) = Inr task
   \<and> (\<exists>kvs. to_dict task = PDict kvs
          \<and> map fst kvs = [''id'', ''title'', ''description'', ''status''])
   \<and> (\<exists>t. from_dict (PDict record) = Inr t
          \<and> (map_of record ''status'' = None \<longrightarrow> status t = PStr ''todo'')
          \<and> (map_of record ''id'' = None \<longrightarrow> id' t = PNone)
          \<and> (map_of record ''title'' = None \<longrightarrow> title t = PNone)
          \<and> (map_of record ''description'' = None \<longrightarrow> description t = PNone))"
proof (intro conjI)
  show "from_dict (to_dict task) = Inr task"
    by (rule from_dict_to_dict)
  show "\<exists>kvs. to_dict task = PDict kvs
          \<and> map fst kvs = [''id'', ''title'', ''description'', ''status'']"
    by (simp add: to_dict_def)
  show "\<exists>t. from_dict (PDict record) = Inr t
          \<and> (map_of record ''status'' = None \<longrightarrow> status t = PStr ''todo'')
          \<and> (map_of record ''id'' = None \<longrightarrow> id' t = PNone)
          \<and> (map_of record ''title'' = None \<longrightarrow> title t = PNone)
          \<and> (map_of record ''description'' = None \<longrightarrow> description t = PNone)"
    by (simp add: from_dict_PDict)
qed

theorem task_dict_roundtrip_witness:
  "map_of [(''title'', PStr ''Buy milk'')] ''status'' = None
   \<and> map_of [(''title'', PStr ''Buy milk'')] ''id'' = None
   \<and> map_of [(''title'', PStr ''Buy milk'')] ''description'' = None
   \<and> from_dict (PDict [(''title'', PStr ''Buy milk'')])
       = Inr \<lparr>id' = PNone, title = PStr ''Buy milk'', description = PNone,
              status = PStr ''todo''\<rparr>
   \<and> from_dict (to_dict \<lparr>id' = PInt 1, title = PStr ''Buy milk'', description = PStr [],
                           status = PStr ''done''\<rparr>)
       = Inr \<lparr>id' = PInt 1, title = PStr ''Buy milk'', description = PStr [],
              status = PStr ''done''\<rparr>"
  using task_dict_roundtrip
    [of "\<lparr>id' = PInt 1, title = PStr ''Buy milk'', description = PStr [],
          status = PStr ''done''\<rparr>"
        "[(''title'', PStr ''Buy milk'')]"]
  by (simp add: from_dict_PDict)

section \<open>Loading\<close>

text \<open>
  What does hold on loading: a missing file and a file that is not JSON load as the empty
  list, and a JSON list of records loads record by record, in the stored order.
\<close>

lemma load_tasks_records:
  "load_tasks (Json (PList (map PDict records)))
     = Inr (map (\<lambda>kvs.
          \<lparr>id' = (case map_of kvs ''id'' of None \<Rightarrow> PNone | Some v \<Rightarrow> v),
           title = (case map_of kvs ''title'' of None \<Rightarrow> PNone | Some v \<Rightarrow> v),
           description = (case map_of kvs ''description'' of None \<Rightarrow> PNone | Some v \<Rightarrow> v),
           status = (case map_of kvs ''status'' of None \<Rightarrow> PStr ''todo'' | Some v \<Rightarrow> v)\<rparr>)
          records)"
  by (induction records) (simp_all add: from_dict_PDict)

lemma load_tasks_absent_or_not_json:
  "load_tasks Missing = Inr [] \<and> load_tasks NotJson = Inr []"
  by simp

text \<open>
  C3. \<open>load_tasks\<close> does not return the empty list for every content that cannot be read as
  a task list. Only \<open>JSONDecodeError\<close> is caught: a file whose bytes are not UTF-8 raises
  \<open>UnicodeDecodeError\<close>; the JSON document \<open>[1]\<close> raises \<open>AttributeError\<close>, as the number
  has no method \<open>get\<close>; the JSON document \<open>1\<close> raises \<open>TypeError\<close>, as it cannot be
  iterated.
\<close>

theorem load_tasks_surfaces_failures:
  "load_tasks NotUtf8 = Inl UnicodeDecodeError
   \<and> load_tasks (Json (PList [PInt 1])) = Inl AttributeError
   \<and> load_tasks (Json (PInt 1)) = Inl TypeError"
  by (simp add: from_dict_def)

section \<open>New ids\<close>

lemma py_max_fold: "py_max (PInt m) (map PInt ns) = Inr (PInt (fold max ns m))"
  by (induction ns arbitrary: m) (simp_all add: max_def)

lemma py_max_ints: "py_max (PInt m) (map PInt ns) = Inr (PInt (Max (set (m # ns))))"
  by (simp only: py_max_fold Max.set_eq_fold)

lemma get_new_task_id_ints:
  assumes "map id' tasks = map PInt ns" and "ns \<noteq> []"
  shows "get_new_task_id tasks = Inr (PInt (1 + Max (set ns)))"
proof -
  from assms obtain task rest n ns' where
    shape: "tasks = task # rest" "ns = n # ns'" "id' task = PInt n" "map id' rest = map PInt ns'"
    by (cases tasks; cases ns) auto
  have "py_max (id' task) (map id' rest) = Inr (PInt (Max (set ns)))"
    by (simp only: shape py_max_ints)
  then show ?thesis
    by (simp add: get_new_task_id_def shape(1))
qed

text \<open>
  C5. \<open>get_new_task_id\<close> gives 1 for the empty list and, for a non-empty list of tasks
  whose ids are the integers \<open>ns\<close>, one more than the greatest of them. It is a function
  of the ids of the given list alone; for the ids 5 and 2 it gives 6.
\<close>

theorem get_new_task_id_spec:
  "get_new_task_id [] = Inr (PInt 1)
   \<and> (map id' tasks = map PInt ns \<and> ns \<noteq> []
        \<longrightarrow> get_new_task_id tasks = Inr (PInt (1 + Max (set ns))))
   \<and> (map id' tasks = map id' tasks' \<longrightarrow> get_new_task_id tasks = get_new_task_id tasks')"
proof (intro conjI impI)
  show "get_new_task_id [] = Inr (PInt 1)"
    by (simp add: get_new_task_id_def)
next
  assume "map id' tasks = map PInt ns \<and> ns \<noteq> []"
  then show "get_new_task_id tasks = Inr (PInt (1 + Max (set ns)))"
    by (simp add: get_new_task_id_ints)
next
  assume "map id' tasks = map id' tasks'"
  then show "get_new_task_id tasks = get_new_task_id tasks'"
    by (cases tasks; cases tasks') (simp_all add: get_new_task_id_def)
qed

theorem get_new_task_id_spec_witness:
  "map id' [\<lparr>id' = PInt 5, title = PStr ''a'', description = PStr [], status = PStr ''todo''\<rparr>,
            \<lparr>id' = PInt 2, title = PStr ''b'', description = PStr [], status = PStr ''done''\<rparr>]
     = map PInt [5, 2]
   \<and> [5, 2 :: int] \<noteq> []
   \<and> get_new_task_id
        [\<lparr>id' = PInt 5, title = PStr ''a'', description = PStr [], status = PStr ''todo''\<rparr>,
         \<lparr>id' = PInt 2, title = PStr ''b'', description = PStr [], status = PStr ''done''\<rparr>]
       = Inr (PInt 6)
   \<and> get_new_task_id
        [\<lparr>id' = PInt 5, title = PStr ''a'', description = PStr [], status = PStr ''todo''\<rparr>,
         \<lparr>id' = PInt 2, title = PStr ''b'', description = PStr [], status = PStr ''done''\<rparr>]
       = get_new_task_id
        [\<lparr>id' = PInt 5, title = PNone, description = PNone, status = PNone\<rparr>,
         \<lparr>id' = PInt 2, title = PNone, description = PNone, status = PNone\<rparr>]"
  using get_new_task_id_spec
    [of "[\<lparr>id' = PInt 5, title = PStr ''a'', description = PStr [], status = PStr ''todo''\<rparr>,
          \<lparr>id' = PInt 2, title = PStr ''b'', description = PStr [], status = PStr ''done''\<rparr>]"
        "[5, 2]"
        "[\<lparr>id' = PInt 5, title = PNone, description = PNone, status = PNone\<rparr>,
          \<lparr>id' = PInt 2, title = PNone, description = PNone, status = PNone\<rparr>]"]
  by (simp add: get_new_task_id_def)

section \<open>The loops that look for a task by its id\<close>






section \<open>Updating\<close>




section \<open>Changing a status\<close>







section \<open>Deleting\<close>




section \<open>Listing\<close>

text \<open>
  C8. On a file that loads as \<open>tasks\<close>, the filter \<open>all\<close> gives \<open>tasks\<close>, and the
  filters \<open>done\<close> and \<open>not_done\<close> split it: the two results together hold every task as
  often as \<open>tasks\<close> does, no task is in both, a task of \<open>tasks\<close> is in the one exactly
  when it is not in the other, and each result keeps the order of \<open>tasks\<close>.
\<close>

theorem list_tasks_partition:
  assumes "load_tasks file = Inr tasks"
  shows "\<exists>dn nd. list_tasks ''all'' file = Inr tasks
           \<and> list_tasks ''done'' file = Inr dn
           \<and> list_tasks ''not_done'' file = Inr nd
           \<and> mset dn + mset nd = mset tasks
           \<and> set dn \<inter> set nd = {}
           \<and> (\<forall>t\<in>set tasks. (t \<in> set dn) = (t \<notin> set nd))
           \<and> subseq dn tasks \<and> subseq nd tasks"
  using assms by (auto simp: list_tasks_def)

theorem list_tasks_partition_witness:
  "load_tasks (save_tasks
       [\<lparr>id' = PInt 1, title = PStr ''a'', description = PStr '''', status = PStr ''done''\<rparr>,
        \<lparr>id' = PInt 2, title = PStr ''b'', description = PStr ''c'', status = PNone\<rparr>,
        \<lparr>id' = PInt 3, title = PStr ''d'', description = PStr ''e'', status = PStr ''todo''\<rparr>])
     = Inr
       [\<lparr>id' = PInt 1, title = PStr ''a'', description = PStr '''', status = PStr ''done''\<rparr>,
        \<lparr>id' = PInt 2, title = PStr ''b'', description = PStr ''c'', status = PNone\<rparr>,
        \<lparr>id' = PInt 3, title = PStr ''d'', description = PStr ''e'', status = PStr ''todo''\<rparr>]
   \<and> list_tasks ''all'' (save_tasks
       [\<lparr>id' = PInt 1, title = PStr ''a'', description = PStr '''', status = PStr ''done''\<rparr>,
        \<lparr>id' = PInt 2, title = PStr ''b'', description = PStr ''c'', status = PNone\<rparr>,
        \<lparr>id' = PInt 3, title = PStr ''d'', description = PStr ''e'', status = PStr ''todo''\<rparr>])
     = Inr
       [\<lparr>id' = PInt 1, title = PStr ''a'', description = PStr '''', status = PStr ''done''\<rparr>,
        \<lparr>id' = PInt 2, title = PStr ''b'', description = PStr ''c'', status = PNone\<rparr>,
        \<lparr>id' = PInt 3, title = PStr ''d'', description = PStr ''e'', status = PStr ''todo''\<rparr>]
   \<and> list_tasks ''done'' (save_tasks
       [\<lparr>id' = PInt 1, title = PStr ''a'', description = PStr '''', status = PStr ''done''\<rparr>,
        \<lparr>id' = PInt 2, title = PStr ''b'', description = PStr ''c'', status = PNone\<rparr>,
        \<lparr>id' = PInt 3, title = PStr ''d'', description = PStr ''e'', status = PStr ''todo''\<rparr>])
     = Inr
       [\<lparr>id' = PInt 1, title = PStr ''a'', description = PStr '''', status = PStr ''done''\<rparr>]
   \<and> list_tasks ''not_done'' (save_tasks
       [\<lparr>id' = PInt 1, title = PStr ''a'', description = PStr '''', status = PStr ''done''\<rparr>,
        \<lparr>id' = PInt 2, title = PStr ''b'', description = PStr ''c'', status = PNone\<rparr>,
        \<lparr>id' = PInt 3, title = PStr ''d'', description = PStr ''e'', status = PStr ''todo''\<rparr>])
     = Inr
       [\<lparr>id' = PInt 2, title = PStr ''b'', description = PStr ''c'', status = PNone\<rparr>,
        \<lparr>id' = PInt 3, title = PStr ''d'', description = PStr ''e'', status = PStr ''todo''\<rparr>]"
proof -
  let ?tasks =
    "[\<lparr>id' = PInt 1, title = PStr ''a'', description = PStr '''', status = PStr ''done''\<rparr>,
      \<lparr>id' = PInt 2, title = PStr ''b'', description = PStr ''c'', status = PNone\<rparr>,
      \<lparr>id' = PInt 3, title = PStr ''d'', description = PStr ''e'', status = PStr ''todo''\<rparr>]"
  have load: "load_tasks (save_tasks ?tasks) = Inr ?tasks"
    by (rule load_save)
  from list_tasks_partition [OF load]
  have all: "list_tasks ''all'' (save_tasks ?tasks) = Inr ?tasks"
    by blast
  have dn: "list_tasks ''done'' (save_tasks ?tasks) = Inr
       [\<lparr>id' = PInt 1, title = PStr ''a'', description = PStr '''', status = PStr ''done''\<rparr>]"
    using load by (simp add: list_tasks_def)
  have nd: "list_tasks ''not_done'' (save_tasks ?tasks) = Inr
       [\<lparr>id' = PInt 2, title = PStr ''b'', description = PStr ''c'', status = PNone\<rparr>,
        \<lparr>id' = PInt 3, title = PStr ''d'', description = PStr ''e'', status = PStr ''todo''\<rparr>]"
    using load by (simp add: list_tasks_def)
  from load all dn nd show ?thesis by (intro conjI)
qed

section \<open>Adding\<close>






section \<open>Distinct ids\<close>









end
